theory Spec2Isabelle
  imports Main
begin

section \<open>Go library functions used by the converter\<close>

text \<open>
  The converter \<^verbatim>\<open>epub2cbz\<close> is a Go program that reads an EPUB archive and writes
  the images of its pages into a CBZ archive. This theory follows the revision of its
  source whose \<^verbatim>\<open>processFile\<close> returns an error and whose pages are read with the
  HTML parser of \<^verbatim>\<open>golang.org/x/net/html\<close>.

  A Go \<^verbatim>\<open>string\<close> is a sequence of bytes, modelled as \<^typ>\<open>string\<close>. The functions
  of this section are the functions of the Go standard library that \<^verbatim>\<open>processFile\<close>
  and its helpers call.
\<close>

subsection \<open>strings\<close>

definition HasPrefix :: "string \<Rightarrow> string \<Rightarrow> bool" where
  "HasPrefix s p = (take (length p) s = p)"

definition TrimPrefix :: "string \<Rightarrow> string \<Rightarrow> string" where
  "TrimPrefix s p = (if HasPrefix s p then drop (length p) s else s)"

text \<open>\<^verbatim>\<open>strings.Join(elems, "/")\<close>.\<close>

fun strings_Join :: "string list \<Rightarrow> string" where
  "strings_Join [] = []"
| "strings_Join [e] = e"
| "strings_Join (e # e' # es) = e @ CHR ''/'' # strings_Join (e' # es)"

subsection \<open>path/filepath\<close>

text \<open>
  The program is built for Linux, macOS and Windows. On Windows the separator of paths is
  the backslash, the slash separates as well, and a path can start with the name of a
  volume. \<^verbatim>\<open>ToSlash\<close>, \<^verbatim>\<open>Ext\<close> and \<^verbatim>\<open>Base\<close> are the same code on every host and
  are defined here for all of them. \<^verbatim>\<open>Clean\<close>, \<^verbatim>\<open>Join\<close> and \<^verbatim>\<open>Dir\<close> are defined
  for the hosts whose separator is the slash; on Windows \<^verbatim>\<open>Join\<close> and \<^verbatim>\<open>Dir\<close> are
  functions that the host brings, as is the length of the volume name of a path that
  starts with a separator.
\<close>

datatype GOOS = Linux | Darwin | Windows

definition backslash :: char where
  "backslash = CHR 0x5C"

definition Separator :: "GOOS \<Rightarrow> char" where
  "Separator goos = (if goos = Windows then backslash else CHR ''/'')"

definition IsPathSeparator :: "GOOS \<Rightarrow> char \<Rightarrow> bool" where
  "IsPathSeparator goos c = (c = CHR ''/'' \<or> (goos = Windows \<and> c = backslash))"

record Host =
  GOOS :: GOOS
  WindowsJoin :: "string list \<Rightarrow> string"
  WindowsDir :: "string \<Rightarrow> string"
  WindowsVolume :: "string \<Rightarrow> nat"

text \<open>\<^verbatim>\<open>filepath.ToSlash\<close> returns its argument where the separator is the slash, and
  replaces every separator by a slash elsewhere.\<close>

definition ToSlash :: "Host \<Rightarrow> string \<Rightarrow> string" where
  "ToSlash h path =
     (if Separator (GOOS h) = CHR ''/'' then path
      else map (\<lambda>c. if c = Separator (GOOS h) then CHR ''/'' else c) path)"

text \<open>The elements of a path: the byte runs between slashes, empty runs included.\<close>

fun elements :: "string \<Rightarrow> string \<Rightarrow> string list" where
  "elements [] cur = [rev cur]"
| "elements (c # cs) cur =
     (if c = CHR ''/'' then rev cur # elements cs [] else elements cs (c # cur))"

text \<open>
  The loop of \<^verbatim>\<open>filepath.Clean\<close> where the separator is the slash, element by element.
  \<open>out\<close> is the output buffer as a stack of elements, last written first. An empty
  element and \<^verbatim>\<open>.\<close> are dropped; \<^verbatim>\<open>..\<close> removes the last real element when there is
  one, is dropped at the root, and is kept at the start of a path that is not rooted.
\<close>

fun clean_loop :: "bool \<Rightarrow> string list \<Rightarrow> string list \<Rightarrow> string list" where
  "clean_loop rooted [] out = out"
| "clean_loop rooted (e # es) out =
     (if e = [] \<or> e = ''.'' then clean_loop rooted es out
      else if e = ''..'' then
        (case out of
           [] \<Rightarrow> if rooted then clean_loop rooted es [] else clean_loop rooted es [''..'']
         | lst # below \<Rightarrow>
             if lst = ''..'' then clean_loop rooted es (''..'' # out)
             else clean_loop rooted es below)
      else clean_loop rooted es (e # out))"

definition Clean :: "string \<Rightarrow> string" where
  "Clean path =
     (let rooted = HasPrefix path ''/'';
          out = rev (clean_loop rooted (elements path []) [])
      in if rooted then CHR ''/'' # strings_Join out
         else if out = [] then ''.''
         else strings_Join out)"

text \<open>\<^verbatim>\<open>filepath.Join\<close>: where the separator is the slash, the elements from the first
  non-empty one on, joined and cleaned.\<close>

definition Join :: "Host \<Rightarrow> string list \<Rightarrow> string" where
  "Join h elem =
     (if GOOS h = Windows then WindowsJoin h elem
      else
        (case dropWhile (\<lambda>e. e = []) elem of
           [] \<Rightarrow> []
         | es \<Rightarrow> Clean (strings_Join es)))"

text \<open>\<^verbatim>\<open>filepath.Dir\<close>: where the separator is the slash, all but the last element,
  cleaned.\<close>

definition Dir :: "Host \<Rightarrow> string \<Rightarrow> string" where
  "Dir h path =
     (if GOOS h = Windows then WindowsDir h path
      else Clean (rev (dropWhile (\<lambda>c. c \<noteq> CHR ''/'') (rev path))))"

text \<open>
  \<^verbatim>\<open>filepath.Ext\<close> scans from the end of the path for a dot and stops at a separator.
  \<open>ext_scan\<close> takes the reversed path and the bytes already passed.
\<close>

fun ext_scan :: "GOOS \<Rightarrow> string \<Rightarrow> string \<Rightarrow> string" where
  "ext_scan goos [] passed = []"
| "ext_scan goos (c # cs) passed =
     (if IsPathSeparator goos c then []
      else if c = CHR ''.'' then c # passed
      else ext_scan goos cs (c # passed))"

definition Ext :: "Host \<Rightarrow> string \<Rightarrow> string" where
  "Ext h path = ext_scan (GOOS h) (rev path) []"

text \<open>
  The length of the volume name of a path: none but on Windows, where a path whose second
  byte is a colon starts with a drive, a path that does not start with a separator has no
  volume, and the host says the rest.
\<close>

definition volumeNameLen :: "Host \<Rightarrow> string \<Rightarrow> nat" where
  "volumeNameLen h path =
     (if GOOS h \<noteq> Windows then 0
      else if 2 \<le> length path \<and> path ! 1 = CHR '':'' then 2
      else if path = [] \<or> \<not> IsPathSeparator (GOOS h) (hd path) then 0
      else WindowsVolume h path)"

text \<open>\<^verbatim>\<open>filepath.Base\<close>: the last element, once the trailing separators and the volume
  name are removed.\<close>

definition Base :: "Host \<Rightarrow> string \<Rightarrow> string" where
  "Base h path =
     (if path = [] then ''.''
      else
        (let stripped = rev (dropWhile (IsPathSeparator (GOOS h)) (rev path));
             stripped = drop (volumeNameLen h stripped) stripped;
             last_elem = rev (takeWhile (\<lambda>c. \<not> IsPathSeparator (GOOS h) c) (rev stripped))
         in if last_elem = [] then [Separator (GOOS h)] else last_elem))"

subsection \<open>strconv and fmt\<close>

definition digit_char :: "nat \<Rightarrow> char" where
  "digit_char d = char_of (48 + d)"

fun digits10 :: "nat \<Rightarrow> string" where
  "digits10 n = (if n < 10 then [digit_char n] else digits10 (n div 10) @ [digit_char (n mod 10)])"

declare digits10.simps [simp del]

text \<open>\<^verbatim>\<open>strconv.Itoa\<close>. A Go \<^verbatim>\<open>int\<close> is modelled as \<^typ>\<open>int\<close>: the indices and
  lengths of the converter are far from 64 bits.\<close>

definition Itoa :: "int \<Rightarrow> string" where
  "Itoa i = (if i < 0 then CHR ''-'' # digits10 (nat (- i)) else digits10 (nat i))"

text \<open>
  The verb \<^verbatim>\<open>%0*d\<close> of \<^verbatim>\<open>fmt.Sprintf\<close> with a width that is not negative: the digits
  are padded with zeros on the left up to the width, one less when a sign is written.
\<close>

definition fmt_0d :: "nat \<Rightarrow> int \<Rightarrow> string" where
  "fmt_0d wid i =
     (let ds = digits10 (nat \<bar>i\<bar>);
          prec = (if i < 0 then wid - 1 else wid)
      in (if i < 0 then ''-'' else []) @ replicate (prec - length ds) CHR ''0'' @ ds)"

text \<open>
  \<^verbatim>\<open>strconv.Atoi\<close>: an optional sign and at least one decimal digit; anything else, and a
  value that does not fit 64 bits, is an error.
\<close>

definition is_digit :: "char \<Rightarrow> bool" where
  "is_digit c = (48 \<le> (of_char c :: int) \<and> (of_char c :: int) \<le> 57)"

definition digits_value :: "string \<Rightarrow> int" where
  "digits_value ds = foldl (\<lambda>n ch. n * 10 + (of_char ch - 48)) 0 ds"

definition Atoi :: "string \<Rightarrow> int option" where
  "Atoi s =
     (let neg = (s \<noteq> [] \<and> hd s = CHR ''-'');
          ds = (if s \<noteq> [] \<and> (hd s = CHR ''-'' \<or> hd s = CHR ''+'') then tl s else s)
      in if ds = [] \<or> \<not> list_all is_digit ds then None
         else
           (let n = (if neg then - digits_value ds else digits_value ds)
            in if n < - (2 ^ 63) \<or> 2 ^ 63 - 1 < n then None else Some n))"

subsection \<open>Ranging over a string\<close>

text \<open>
  \<^verbatim>\<open>for _, r := range s\<close> decodes \<open>s\<close> as UTF-8, one rune at a time. A byte that starts
  no well-formed encoding yields the rune \<^verbatim>\<open>U+FFFD\<close> and is passed alone. \<open>decode_runes\<close>
  works on the values of the bytes; a rune is a Go \<^verbatim>\<open>int32\<close>, here an \<^typ>\<open>int\<close>.
\<close>

definition RuneError :: int where
  "RuneError = 0xFFFD"

definition is_cont :: "int \<Rightarrow> bool" where
  "is_cont b = (0x80 \<le> b \<and> b \<le> 0xBF)"

text \<open>The range accepted for the second byte, after the first byte \<open>b0\<close>.\<close>

definition accept_lo :: "int \<Rightarrow> int" where
  "accept_lo b0 = (if b0 = 0xE0 then 0xA0 else if b0 = 0xF0 then 0x90 else 0x80)"

definition accept_hi :: "int \<Rightarrow> int" where
  "accept_hi b0 = (if b0 = 0xED then 0x9F else if b0 = 0xF4 then 0x8F else 0xBF)"

text \<open>
  \<^verbatim>\<open>utf8.DecodeRuneInString\<close>: the first rune of the bytes and its width. Every byte
  is read under a test of the length; \<open>byte_at\<close> gives 0 where there is none.
\<close>

definition byte_at :: "int list \<Rightarrow> nat \<Rightarrow> int" where
  "byte_at bs i = (if i < length bs then bs ! i else 0)"

definition DecodeRune :: "int list \<Rightarrow> int \<times> nat" where
  "DecodeRune bs =
     (let b0 = byte_at bs 0; b1 = byte_at bs 1; b2 = byte_at bs 2; b3 = byte_at bs 3;
          n = length bs
      in if n < 1 then (RuneError, 0)
         else if b0 < 0x80 then (b0, 1)
         else if 0xC2 \<le> b0 \<and> b0 \<le> 0xDF then
           (if 2 \<le> n \<and> is_cont b1 then ((b0 mod 32) * 64 + b1 mod 64, 2)
            else (RuneError, 1))
         else if 0xE0 \<le> b0 \<and> b0 \<le> 0xEF then
           (if 3 \<le> n \<and> accept_lo b0 \<le> b1 \<and> b1 \<le> accept_hi b0 \<and> is_cont b2
            then ((b0 mod 16) * 4096 + (b1 mod 64) * 64 + b2 mod 64, 3)
            else (RuneError, 1))
         else if 0xF0 \<le> b0 \<and> b0 \<le> 0xF4 then
           (if 4 \<le> n \<and> accept_lo b0 \<le> b1 \<and> b1 \<le> accept_hi b0 \<and> is_cont b2 \<and> is_cont b3
            then ((b0 mod 8) * 262144 + (b1 mod 64) * 4096 + (b2 mod 64) * 64 + b3 mod 64, 4)
            else (RuneError, 1))
         else (RuneError, 1))"

lemma if_pos_snd: "0 < snd a \<Longrightarrow> 0 < snd b \<Longrightarrow> 0 < snd (if c then a else b)"
  by simp

lemma DecodeRune_width: "bs \<noteq> [] \<Longrightarrow> 0 < snd (DecodeRune bs)"
proof -
  assume "bs \<noteq> []"
  then have n: "\<not> length bs < 1" by simp
  show ?thesis
    unfolding DecodeRune_def Let_def if_not_P [OF n]
    by (intro if_pos_snd) simp_all
qed

function decode_runes :: "int list \<Rightarrow> int list" where
  "decode_runes bs =
     (if bs = [] then []
      else fst (DecodeRune bs) # decode_runes (drop (snd (DecodeRune bs)) bs))"
  by pat_completeness auto
termination
  by (relation "measure length") (simp_all add: DecodeRune_width)

declare decode_runes.simps [simp del]

definition runes :: "string \<Rightarrow> int list" where
  "runes s = decode_runes (map of_char s)"

section \<open>The data of the converter\<close>

text \<open>
  The structures decoded from \<^verbatim>\<open>META-INF/container.xml\<close> and from the package
  document. A nested anonymous struct is flattened into the fields of its parent.
\<close>

record Container =
  FullPath :: string

record Metadata =
  Identifier :: "string list"
  Title :: "string list"
  Language :: "string list"
  Creator :: "string list"
  Publisher :: "string list"
  Date :: "string list"
  Rights :: "string list"
  Series :: "string list"
  SeriesID :: "string list"
  Number :: "string list"

record Item =
  ID :: string
  Href :: string

record Itemref =
  IDRef :: string

record Package =
  Metadata :: Metadata
  Items :: "Item list"
  Itemrefs :: "Itemref list"

record ComicPageInfo =
  Image :: int
  Type :: string
  DoublePage :: bool
  ImageSize :: int
  Key :: string
  Bookmark :: string
  ImageWidth :: int
  ImageHeight :: int

text \<open>The fields of \<^verbatim>\<open>ComicInfo\<close> carry the prefix \<open>ci\<close>: several share their name
  with a field of \<^verbatim>\<open>Metadata\<close>.\<close>

record ComicInfo =
  ciTitle :: string
  ciSeries :: string
  ciNumber :: string
  ciCount :: int
  ciVolume :: int
  ciAlternateSeries :: string
  ciAlternateNumber :: string
  ciAlternateCount :: int
  ciSummary :: string
  ciNotes :: string
  ciYear :: int
  ciMonth :: int
  ciDay :: int
  ciWriter :: string
  ciPenciller :: string
  ciInker :: string
  ciColorist :: string
  ciLetterer :: string
  ciCoverArtist :: string
  ciEditor :: string
  ciPublisher :: string
  ciImprint :: string
  ciGenre :: string
  ciWeb :: string
  ciPageCount :: int
  ciLanguageISO :: string
  ciFormat :: string
  ciBlackAndWhite :: string
  ciManga :: string
  ciCharacters :: string
  ciTeams :: string
  ciLocations :: string
  ciScanInformation :: string
  ciStoryArc :: string
  ciSeriesGroup :: string
  ciAgeRating :: string
  ciPages :: "ComicPageInfo list option"
  ciCommunityRating :: string
  ciMainCharacterOrTeam :: string
  ciReview :: string

text \<open>The zero value of the struct: what a composite literal leaves in the fields it
  does not name.\<close>

definition zero_ComicInfo :: ComicInfo where
  "zero_ComicInfo =
     \<lparr> ciTitle = [], ciSeries = [], ciNumber = [], ciCount = 0, ciVolume = 0,
       ciAlternateSeries = [], ciAlternateNumber = [], ciAlternateCount = 0,
       ciSummary = [], ciNotes = [], ciYear = 0, ciMonth = 0, ciDay = 0,
       ciWriter = [], ciPenciller = [], ciInker = [], ciColorist = [], ciLetterer = [],
       ciCoverArtist = [], ciEditor = [], ciPublisher = [], ciImprint = [], ciGenre = [],
       ciWeb = [], ciPageCount = 0, ciLanguageISO = [], ciFormat = [],
       ciBlackAndWhite = [], ciManga = [], ciCharacters = [], ciTeams = [],
       ciLocations = [], ciScanInformation = [], ciStoryArc = [], ciSeriesGroup = [],
       ciAgeRating = [], ciPages = None, ciCommunityRating = [],
       ciMainCharacterOrTeam = [], ciReview = [] \<rparr>"

text \<open>
  A node of the tree that \<^verbatim>\<open>html.Parse\<close> returns. The chain
  \<^verbatim>\<open>FirstChild\<close>, \<^verbatim>\<open>NextSibling\<close> of a node is the list of its children.
\<close>

datatype NodeType =
  ErrorNode | TextNode | DocumentNode | ElementNode | CommentNode | DoctypeNode | RawNode

record Attribute =
  AttrNamespace :: string
  AttrKey :: string
  AttrVal :: string

datatype Node =
  Node (NodeType: NodeType) (Data: string) (Namespace: string)
    (Attr: "Attribute list") (Children: "Node list")

text \<open>
  An entry of a zip archive. Reading an entry delivers bytes and then ends well or with an
  error (a checksum that does not match, a truncated entry): a \<open>stream\<close> is the bytes
  delivered and whether the end was clean. \<open>Open\<close> is \<open>None\<close> where
  \<^verbatim>\<open>f.Open()\<close> returns an error.
\<close>

type_synonym stream = "string \<times> bool"

record File =
  Name :: string
  Open :: "stream option"

text \<open>
  The file system, as far as the converter sees it: the archive stored under a path, as
  the list of its entries in directory order; \<open>None\<close> where \<^verbatim>\<open>zip.OpenReader\<close>
  fails. The archive written by a conversion is stored the same way.
\<close>

type_synonym filesystem = "string \<Rightarrow> File list option"

text \<open>
  What the converter takes from its libraries and its host: the host of the path
  functions, and as functions the XML decoders
  of the two structures (from the stream of an entry), the HTML parser, the XML encoder of
  \<^verbatim>\<open>ComicInfo\<close>, and the outcome of the operations on the output file.
  \<open>ZipWrite name\<close> is \<open>None\<close> when the bytes of the entry \<open>name\<close> are all written
  and \<open>Some k\<close> when the write breaks off after \<open>k\<close> bytes.
\<close>

record Env =
  Host :: Host
  DecodeContainer :: "stream \<Rightarrow> Container option"
  DecodePackage :: "stream \<Rightarrow> Package option"
  HtmlParse :: "string \<Rightarrow> Node option"
  MarshalIndent :: "ComicInfo \<Rightarrow> string option"
  OsCreate :: "string \<Rightarrow> bool"
  ZipCreate :: "string \<Rightarrow> bool"
  ZipWrite :: "string \<Rightarrow> nat option"

datatype find_error = NotFound | OpenFailed

text \<open>The errors \<^verbatim>\<open>processFile\<close> returns, one for each of its \<^verbatim>\<open>return\<close>
  statements with an error.\<close>

datatype error =
  NotEpubExtension
  | OpeningEpub
  | FindingContainer find_error
  | DecodingContainer
  | OpfNotInContainer
  | FindingOpf find_error
  | DecodingOpf
  | NoPagesInSpine
  | CreatingZip

section \<open>The metadata of the comic\<close>

definition getFirst :: "string list \<Rightarrow> string" where
  "getFirst items = (case items of [] \<Rightarrow> [] | x # _ \<Rightarrow> x)"

text \<open>The loop of \<^verbatim>\<open>containsJapanese\<close> over the runes of the string.\<close>

fun japanese_loop :: "int list \<Rightarrow> bool" where
  "japanese_loop [] = False"
| "japanese_loop (r # rs) =
     (if (0x3040 \<le> r \<and> r \<le> 0x309F) \<or> (0x30A0 \<le> r \<and> r \<le> 0x30FF) \<or> (0x4E00 \<le> r \<and> r \<le> 0x9FBF)
      then True
      else japanese_loop rs)"

definition containsJapanese :: "string \<Rightarrow> bool" where
  "containsJapanese s = japanese_loop (runes s)"

definition hasMetadata :: "Metadata \<Rightarrow> bool" where
  "hasMetadata metadata =
     (0 < length (Title metadata) \<or>
      0 < length (Creator metadata) \<or>
      0 < length (Publisher metadata) \<or>
      0 < length (Series metadata) \<or>
      0 < length (Date metadata) \<or>
      0 < length (Language metadata) \<or>
      0 < length (Identifier metadata) \<or>
      0 < length (Number metadata))"

text \<open>\<^verbatim>\<open>createComicInfo\<close>, statement by statement; each \<open>c\<close> is the structure after
  one of them.\<close>

definition createComicInfo :: "Metadata \<Rightarrow> ComicInfo" where
  "createComicInfo metadata =
     (let c0 = zero_ComicInfo
            \<lparr> ciTitle := getFirst (Title metadata),
              ciSeries := getFirst (Series metadata),
              ciNumber := getFirst (Number metadata),
              ciPublisher := getFirst (Publisher metadata),
              ciLanguageISO := getFirst (Language metadata),
              ciNotes := ''Generated from EPUB metadata'' \<rparr>;
          c1 = (case Date metadata of
                  [] \<Rightarrow> c0
                | dateStr # _ \<Rightarrow>
                    if 4 \<le> length dateStr then
                      (case Atoi (take 4 dateStr) of
                         Some year \<Rightarrow> c0 \<lparr> ciYear := year \<rparr>
                       | None \<Rightarrow> c0)
                    else c0);
          c2 = (if ciSeries c1 \<noteq> [] then
                  (if containsJapanese (ciSeries c1) then c1 \<lparr> ciManga := ''Yes'' \<rparr>
                   else c1 \<lparr> ciManga := ''No'' \<rparr>)
                else c1 \<lparr> ciManga := ''Unknown'' \<rparr>);
          creator = getFirst (Creator metadata);
          c3 = (if creator \<noteq> [] then c2 \<lparr> ciWriter := creator, ciPenciller := creator \<rparr>
                else c2);
          c4 = (if ciBlackAndWhite c3 = [] then c3 \<lparr> ciBlackAndWhite := ''Unknown'' \<rparr> else c3);
          c5 = (if ciAgeRating c4 = [] then c4 \<lparr> ciAgeRating := ''Unknown'' \<rparr> else c4)
      in c5)"

section \<open>The conversion\<close>

fun findAndOpenFile :: "File list \<Rightarrow> string \<Rightarrow> find_error + stream" where
  "findAndOpenFile [] fileName = Inl NotFound"
| "findAndOpenFile (f # fs) fileName =
     (if Name f = fileName then
        (case Open f of None \<Rightarrow> Inl OpenFailed | Some file \<Rightarrow> Inr file)
      else findAndOpenFile fs fileName)"

subsection \<open>The images of a page\<close>

text \<open>The loop over the attributes of an \<^verbatim>\<open>img\<close> element: the first attribute
  with the key \<^verbatim>\<open>src\<close> adds a path and ends the loop.\<close>

fun attr_loop :: "Host \<Rightarrow> string \<Rightarrow> Attribute list \<Rightarrow> string list \<Rightarrow> string list" where
  "attr_loop h pageHref [] srcs = srcs"
| "attr_loop h pageHref (a # as) srcs =
     (if AttrKey a = ''src'' then
        (let imgPath = Join h [Dir h pageHref, AttrVal a];
             imgPath = ToSlash h imgPath;
             imgPath = TrimPrefix imgPath ''/''
         in srcs @ [imgPath])
      else attr_loop h pageHref as srcs)"

text \<open>
  The closure \<^verbatim>\<open>f\<close> of \<^verbatim>\<open>extractImagesFromXHTML\<close>, which appends to the slice
  \<^verbatim>\<open>srcs\<close> it captures: here it takes the slice and returns it. \<open>f_children\<close> is
  its loop over the children of the node.
\<close>

fun f_node :: "Host \<Rightarrow> string \<Rightarrow> Node \<Rightarrow> string list \<Rightarrow> string list"
  and f_children :: "Host \<Rightarrow> string \<Rightarrow> Node list \<Rightarrow> string list \<Rightarrow> string list" where
  "f_node h pageHref (Node t d ns attrs cs) srcs =
     f_children h pageHref cs
       (if t = ElementNode \<and> d = ''img'' then attr_loop h pageHref attrs srcs else srcs)"
| "f_children h pageHref [] srcs = srcs"
| "f_children h pageHref (c # cs) srcs = f_children h pageHref cs (f_node h pageHref c srcs)"

definition extractImagesFromXHTML :: "Env \<Rightarrow> string \<Rightarrow> string \<Rightarrow> string list \<Rightarrow> string list" where
  "extractImagesFromXHTML env htmlContent pageHref srcs =
     (case HtmlParse env htmlContent of
        None \<Rightarrow> srcs
      | Some doc \<Rightarrow> f_node (Host env) pageHref doc srcs)"

subsection \<open>Writing an image\<close>

definition normalizeImageName :: "Host \<Rightarrow> string \<Rightarrow> int \<Rightarrow> int \<Rightarrow> string" where
  "normalizeImageName h originalName index totalFiles =
     (let ext = Ext h originalName;
          totalDigits = length (Itoa totalFiles)
      in ''page'' @ fmt_0d totalDigits index @ ext)"

text \<open>
  Writing bytes into an entry of the output archive, by \<^verbatim>\<open>io.Copy\<close> or
  \<^verbatim>\<open>Write\<close>: the bytes that reach the entry, and whether they are all there.
\<close>

definition zip_write :: "Env \<Rightarrow> string \<Rightarrow> string \<Rightarrow> stream" where
  "zip_write env name bytes =
     (case ZipWrite env name of
        None \<Rightarrow> (bytes, True)
      | Some k \<Rightarrow> if k < length bytes then (take k bytes, False) else (bytes, True))"

text \<open>
  \<^verbatim>\<open>addImageToZip\<close> returns at the first entry of the input archive with the name
  \<open>imgPath\<close>, whatever happens there. \<open>zipw\<close> is the output archive, as the entries
  written so far; an error of the copy leaves the entry it created.
\<close>

fun addImageToZip :: "Env \<Rightarrow> File list \<Rightarrow> File list \<Rightarrow> string \<Rightarrow> int \<Rightarrow> int \<Rightarrow> File list" where
  "addImageToZip env zipw [] imgPath imageIndex total' = zipw"
| "addImageToZip env zipw (f # fs) imgPath imageIndex total' =
     (if Name f = imgPath then
        (case Open f of
           None \<Rightarrow> zipw
         | Some srcFile \<Rightarrow>
             (let name = Base (Host env) (normalizeImageName (Host env) imgPath imageIndex total')
              in if \<not> ZipCreate env name then zipw
                 else zipw @ [\<lparr> Name = name, Open = Some (zip_write env name (fst srcFile)) \<rparr>]))
      else addImageToZip env zipw fs imgPath imageIndex total')"

subsection \<open>The loops of \<^verbatim>\<open>processFile\<close>\<close>

text \<open>The map from the ids of the manifest to their hrefs: a later item overwrites an
  earlier one with the same id.\<close>

fun manifest_loop :: "Item list \<Rightarrow> (string \<rightharpoonup> string) \<Rightarrow> (string \<rightharpoonup> string)" where
  "manifest_loop [] pageMap = pageMap"
| "manifest_loop (item # items) pageMap = manifest_loop items (pageMap(ID item \<mapsto> Href item))"

fun spine_loop :: "Host \<Rightarrow> string \<Rightarrow> (string \<rightharpoonup> string) \<Rightarrow> Itemref list \<Rightarrow> string list \<Rightarrow> string list" where
  "spine_loop h volOPFPath pageMap [] pages = pages"
| "spine_loop h volOPFPath pageMap (ref # refs) pages =
     (case pageMap (IDRef ref) of
        Some href \<Rightarrow>
          (let absPath = Join h [Dir h volOPFPath, href];
               absPath = ToSlash h absPath;
               absPath = TrimPrefix absPath ''/''
           in spine_loop h volOPFPath pageMap refs (pages @ [absPath]))
      | None \<Rightarrow> spine_loop h volOPFPath pageMap refs pages)"

text \<open>
  The inner loop over the entries of the archive, for one page: an entry with the name of
  the page that cannot be opened or read is passed (\<^verbatim>\<open>continue\<close>); the first one that
  can ends the loop (\<^verbatim>\<open>break\<close>).
\<close>

fun page_loop :: "Env \<Rightarrow> File list \<Rightarrow> string \<Rightarrow> string list \<Rightarrow> string list" where
  "page_loop env [] pageHref imgSrcs = imgSrcs"
| "page_loop env (f # fs) pageHref imgSrcs =
     (if Name f = pageHref then
        (case Open f of
           None \<Rightarrow> page_loop env fs pageHref imgSrcs
         | Some file \<Rightarrow>
             if \<not> snd file then page_loop env fs pageHref imgSrcs
             else extractImagesFromXHTML env (fst file) pageHref imgSrcs)
      else page_loop env fs pageHref imgSrcs)"

fun pages_loop :: "Env \<Rightarrow> File list \<Rightarrow> string list \<Rightarrow> string list \<Rightarrow> string list" where
  "pages_loop env zipReader [] imgSrcs = imgSrcs"
| "pages_loop env zipReader (pageHref # pages) imgSrcs =
     pages_loop env zipReader pages (page_loop env zipReader pageHref imgSrcs)"

text \<open>The loop over \<^verbatim>\<open>imgSrcs\<close>; \<open>total'\<close> is \<^verbatim>\<open>len(imgSrcs)\<close>.\<close>

fun images_loop :: "Env \<Rightarrow> File list \<Rightarrow> int \<Rightarrow> string list \<Rightarrow> File list \<Rightarrow> int \<Rightarrow> File list" where
  "images_loop env zipReader total' [] zipw imageIndex = zipw"
| "images_loop env zipReader total' (src # srcs) zipw imageIndex =
     images_loop env zipReader total' srcs
       (addImageToZip env zipw zipReader src imageIndex total') (imageIndex + 1)"

subsection \<open>\<^verbatim>\<open>processFile\<close>\<close>

definition xml_Header :: string where
  "xml_Header = ''<?xml version=\"1.0\" encoding=\"UTF-8\"?>'' @ [CHR 0x0A]"

text \<open>
  The first part of \<^verbatim>\<open>processFile\<close>, from opening the archive to the decoded package
  document: the entries of the archive, the path of the package document and the package.
\<close>

definition open_package :: "Env \<Rightarrow> filesystem \<Rightarrow> string \<Rightarrow> error + (File list \<times> string \<times> Package)" where
  "open_package env fs epubPath =
     (case fs epubPath of
        None \<Rightarrow> Inl OpeningEpub
      | Some zipReader \<Rightarrow>
          (case findAndOpenFile zipReader ''META-INF/container.xml'' of
             Inl e \<Rightarrow> Inl (FindingContainer e)
           | Inr containerFile \<Rightarrow>
               (case DecodeContainer env containerFile of
                  None \<Rightarrow> Inl DecodingContainer
                | Some container \<Rightarrow>
                    (let volOPFPath = FullPath container
                     in if volOPFPath = [] then Inl OpfNotInContainer
                        else
                          (case findAndOpenFile zipReader volOPFPath of
                             Inl e \<Rightarrow> Inl (FindingOpf e)
                           | Inr opfFile \<Rightarrow>
                               (case DecodePackage env opfFile of
                                  None \<Rightarrow> Inl DecodingOpf
                                | Some pkg \<Rightarrow> Inr (zipReader, volOPFPath, pkg)))))))"

text \<open>The last part of \<^verbatim>\<open>processFile\<close>: the entry \<^verbatim>\<open>ComicInfo.xml\<close>.\<close>

definition add_comic_info :: "Env \<Rightarrow> Metadata \<Rightarrow> File list \<Rightarrow> File list" where
  "add_comic_info env metadata zipw =
     (if hasMetadata metadata then
        (let comicInfo = createComicInfo metadata
         in case MarshalIndent env comicInfo of
              None \<Rightarrow> zipw
            | Some comicInfoXML \<Rightarrow>
                (let comicInfoContent = xml_Header @ comicInfoXML
                 in if \<not> ZipCreate env ''ComicInfo.xml'' then zipw
                    else zipw @ [\<lparr> Name = ''ComicInfo.xml'',
                                    Open = Some (zip_write env ''ComicInfo.xml'' comicInfoContent) \<rparr>]))
      else zipw)"

text \<open>
  \<^verbatim>\<open>zip.OpenReader\<close> reads the directory of the archive and leaves the bytes of the
  entries in the file, where \<^verbatim>\<open>f.Open\<close> reads them later. \<^verbatim>\<open>os.Create\<close> empties
  the file it opens: when the output path names the input archive, the reader keeps the
  names it listed and no entry opens any more. A path stands here for the file it names,
  so that two paths are equal when they name one file.
\<close>

definition after_create :: "string \<Rightarrow> string \<Rightarrow> File list \<Rightarrow> File list" where
  "after_create epubPath outputPath zipReader =
     (if outputPath = epubPath then map (\<lambda>f. f \<lparr> Open := None \<rparr>) zipReader else zipReader)"

text \<open>
  \<^verbatim>\<open>processFile\<close> returns its error (\<open>None\<close> for \<^verbatim>\<open>nil\<close>) and the file system it
  leaves. The output file is created once the pages are known, and holds at the end the
  entries written.
\<close>

definition processFile :: "Env \<Rightarrow> filesystem \<Rightarrow> string \<Rightarrow> string \<Rightarrow> error option \<times> filesystem" where
  "processFile env fs epubPath outputPath0 =
     (if Ext (Host env) epubPath \<noteq> ''.epub'' then (Some NotEpubExtension, fs)
      else
        (let outputPath =
               (if outputPath0 = [] then take (length epubPath - length ''.epub'') epubPath @ ''.cbz''
                else outputPath0)
         in case open_package env fs epubPath of
              Inl e \<Rightarrow> (Some e, fs)
            | Inr (zipReader, volOPFPath, pkg) \<Rightarrow>
                (let metadata = Metadata pkg;
                     pageMap = manifest_loop (Items pkg) Map.empty;
                     pages = spine_loop (Host env) volOPFPath pageMap (Itemrefs pkg) []
                 in if length pages = 0 then (Some NoPagesInSpine, fs)
                    else if \<not> OsCreate env outputPath then (Some CreatingZip, fs)
                    else
                      (let zipReader = after_create epubPath outputPath zipReader;
                           imgSrcs = pages_loop env zipReader pages [];
                           zipw = images_loop env zipReader (int (length imgSrcs)) imgSrcs [] 0;
                           zipw = add_comic_info env metadata zipw
                       in (None, fs(outputPath \<mapsto> zipw))))))"

section \<open>The conversion, described\<close>

text \<open>
  The functions of this section are not translated from the program: they say what its
  loops compute, and the lemmas further down prove that they do.
\<close>

text \<open>A relative reference resolved against the directory of the document it stands in.\<close>

definition resolve :: "Host \<Rightarrow> string \<Rightarrow> string \<Rightarrow> string" where
  "resolve h base rel = TrimPrefix (ToSlash h (Join h [Dir h base, rel])) ''/''"

text \<open>The nodes of a tree in document order: a node before its children, the children
  from the first to the last.\<close>

fun preorder :: "Node \<Rightarrow> Node list" where
  "preorder (Node t d ns attrs cs) = Node t d ns attrs cs # concat (map preorder cs)"

text \<open>An image element is an element with the name \<^verbatim>\<open>img\<close>, in any namespace.\<close>

definition is_img :: "Node \<Rightarrow> bool" where
  "is_img n \<longleftrightarrow> NodeType n = ElementNode \<and> Data n = ''img''"

text \<open>The source of an image element: the value of its first attribute with the key
  \<^verbatim>\<open>src\<close>, if it has one.\<close>

definition src_of :: "Node \<Rightarrow> string option" where
  "src_of n =
     (if is_img n then map_option AttrVal (find (\<lambda>a. AttrKey a = ''src'') (Attr n)) else None)"

definition page_refs :: "Host \<Rightarrow> string \<Rightarrow> Node \<Rightarrow> string list" where
  "page_refs h pageHref doc = map (resolve h pageHref) (List.map_filter src_of (preorder doc))"

text \<open>The document of a page: the bytes of the first entry with the name of the page
  that opens and reads to a clean end.\<close>

definition page_document :: "File list \<Rightarrow> string \<Rightarrow> string option" where
  "page_document zipReader pageHref =
     (case find (\<lambda>f. Name f = pageHref \<and> (case Open f of None \<Rightarrow> False | Some file \<Rightarrow> snd file))
             zipReader of
        None \<Rightarrow> None
      | Some f \<Rightarrow> map_option fst (Open f))"

text \<open>The image references of a page; none when the page has no document or the
  parser fails.\<close>

definition page_images :: "Env \<Rightarrow> File list \<Rightarrow> string \<Rightarrow> string list" where
  "page_images env zipReader pageHref =
     (case page_document zipReader pageHref of
        None \<Rightarrow> []
      | Some content \<Rightarrow>
          (case HtmlParse env content of
             None \<Rightarrow> []
           | Some doc \<Rightarrow> page_refs (Host env) pageHref doc))"

text \<open>The manifest as a map, a later item first; the hrefs of the spine, in the order
  of the spine, the ids without an item left out.\<close>

definition manifest :: "Item list \<Rightarrow> (string \<rightharpoonup> string)" where
  "manifest items = map_of (rev (map (\<lambda>item. (ID item, Href item)) items))"

definition resolved_hrefs :: "(string \<rightharpoonup> string) \<Rightarrow> Itemref list \<Rightarrow> string list" where
  "resolved_hrefs pageMap refs = List.map_filter (\<lambda>ref. pageMap (IDRef ref)) refs"

definition spine_pages :: "Host \<Rightarrow> string \<Rightarrow> Package \<Rightarrow> string list" where
  "spine_pages h volOPFPath pkg =
     map (resolve h volOPFPath) (resolved_hrefs (manifest (Items pkg)) (Itemrefs pkg))"

text \<open>The image references collected from the pages of the spine, page after page.\<close>

definition collected :: "Env \<Rightarrow> File list \<Rightarrow> string \<Rightarrow> Package \<Rightarrow> string list" where
  "collected env zipReader volOPFPath pkg =
     concat (map (page_images env zipReader) (spine_pages (Host env) volOPFPath pkg))"

text \<open>
  What the image reference \<open>imgPath\<close> at the index \<open>imageIndex\<close> adds to the output
  archive: one entry, or nothing when no entry of the input archive has the name, when the
  first one with the name does not open, or when the output entry cannot be created.
\<close>

definition image_entry :: "Env \<Rightarrow> File list \<Rightarrow> int \<Rightarrow> string \<Rightarrow> int \<Rightarrow> File list" where
  "image_entry env zipReader total' imgPath imageIndex =
     (case find (\<lambda>f. Name f = imgPath) zipReader of
        None \<Rightarrow> []
      | Some f \<Rightarrow>
          (case Open f of
             None \<Rightarrow> []
           | Some srcFile \<Rightarrow>
               (let name = Base (Host env) (normalizeImageName (Host env) imgPath imageIndex total')
                in if ZipCreate env name
                   then [\<lparr> Name = name, Open = Some (zip_write env name (fst srcFile)) \<rparr>]
                   else [])))"



definition image_entries :: "Env \<Rightarrow> File list \<Rightarrow> string list \<Rightarrow> File list" where
  "image_entries env zipReader srcs =
     concat (map (\<lambda>(i, src). image_entry env zipReader (int (length srcs)) src (int i))
                 (enumerate 0 srcs))"

definition comic_info_entry :: "Env \<Rightarrow> Metadata \<Rightarrow> File list" where
  "comic_info_entry env metadata = add_comic_info env metadata []"

definition output_path :: "string \<Rightarrow> string \<Rightarrow> string" where
  "output_path epubPath outputPath =
     (if outputPath = [] then take (length epubPath - length ''.epub'') epubPath @ ''.cbz''
      else outputPath)"

text \<open>An element of a cleaned path: not empty, and without a separator.\<close>

definition real_element :: "string \<Rightarrow> bool" where
  "real_element e \<longleftrightarrow> e \<noteq> [] \<and> CHR ''/'' \<notin> set e"

text \<open>The entries of an output archive that hold a page image, by their name.\<close>

definition is_page_entry :: "File \<Rightarrow> bool" where
  "is_page_entry f = HasPrefix (Name f) ''page''"

text \<open>The three ranges of code points of \<^verbatim>\<open>containsJapanese\<close>.\<close>

definition Hiragana :: "int \<Rightarrow> bool" where
  "Hiragana r \<longleftrightarrow> 0x3040 \<le> r \<and> r \<le> 0x309F"

definition Katakana :: "int \<Rightarrow> bool" where
  "Katakana r \<longleftrightarrow> 0x30A0 \<le> r \<and> r \<le> 0x30FF"

definition Kanji :: "int \<Rightarrow> bool" where
  "Kanji r \<longleftrightarrow> 0x4E00 \<le> r \<and> r \<le> 0x9FBF"

subsection \<open>The specification's reading of a page\<close>



section \<open>Example archives\<close>

text \<open>
  Four small books and the environment they are converted in, on Linux. The decoders and
  the parser of the environment are given on the bytes of these books only, with the
  structures that the libraries return for them; every operation on the output succeeds.
\<close>

definition entry :: "string \<Rightarrow> string \<Rightarrow> File" where
  "entry name bytes = \<lparr> Name = name, Open = Some (bytes, True) \<rparr>"

definition element :: "string \<Rightarrow> Attribute list \<Rightarrow> Node list \<Rightarrow> Node" where
  "element name attrs cs = Node ElementNode name [] attrs cs"

definition img :: "string \<Rightarrow> Node" where
  "img src = element ''img'' [\<lparr> AttrNamespace = [], AttrKey = ''src'', AttrVal = src \<rparr>] []"

text \<open>The tree of a document whose body holds the nodes \<open>cs\<close>.\<close>

definition document :: "Node list \<Rightarrow> Node" where
  "document cs =
     Node DocumentNode [] [] [] [element ''html'' [] [element ''head'' [] [], element ''body'' [] cs]]"

definition container_xml :: string where
  "container_xml =
     ''<container><rootfiles><rootfile full-path=\"OEBPS/content.opf\"/></rootfiles></container>''"

definition no_metadata :: Metadata where
  "no_metadata =
     \<lparr> Identifier = [], Title = [], Language = [], Creator = [], Publisher = [], Date = [],
       Rights = [], Series = [], SeriesID = [], Number = [] \<rparr>"

subsection \<open>A book whose first page has two images\<close>

text \<open>The spine names a first page with two images, an id that the manifest does not
  have, a second page with text only and a third page with one image.\<close>

definition book1_opf :: string where
  "book1_opf =
     ''<package><manifest>'' @
     ''<item id=\"p1\" href=\"text/p1.xhtml\"/>'' @
     ''<item id=\"p2\" href=\"text/p2.xhtml\"/>'' @
     ''<item id=\"p3\" href=\"text/p3.xhtml\"/>'' @
     ''</manifest><spine>'' @
     ''<itemref idref=\"p1\"/><itemref idref=\"ghost\"/>'' @
     ''<itemref idref=\"p2\"/><itemref idref=\"p3\"/>'' @
     ''</spine></package>''"

definition book1_package :: Package where
  "book1_package =
     \<lparr> Metadata = no_metadata,
       Items = [\<lparr> ID = ''p1'', Href = ''text/p1.xhtml'' \<rparr>,
                \<lparr> ID = ''p2'', Href = ''text/p2.xhtml'' \<rparr>,
                \<lparr> ID = ''p3'', Href = ''text/p3.xhtml'' \<rparr>],
       Itemrefs = [\<lparr> IDRef = ''p1'' \<rparr>, \<lparr> IDRef = ''ghost'' \<rparr>,
                   \<lparr> IDRef = ''p2'' \<rparr>, \<lparr> IDRef = ''p3'' \<rparr>] \<rparr>"

definition page_two_images :: string where
  "page_two_images =
     ''<html><body><img src=\"../images/a.jpg\"/><img src=\"../images/b.png\"/></body></html>''"

definition page_text_only :: string where
  "page_text_only = ''<html><body><p>The end</p></body></html>''"

definition page_one_image :: string where
  "page_one_image = ''<html><body><img src=\"../images/c.jpg\"/></body></html>''"

definition book1 :: "File list" where
  "book1 =
     [entry ''mimetype'' ''application/epub+zip'',
      entry ''META-INF/container.xml'' container_xml,
      entry ''OEBPS/content.opf'' book1_opf,
      entry ''OEBPS/text/p1.xhtml'' page_two_images,
      entry ''OEBPS/text/p2.xhtml'' page_text_only,
      entry ''OEBPS/text/p3.xhtml'' page_one_image,
      entry ''OEBPS/images/a.jpg'' ''bytes of a'',
      entry ''OEBPS/images/b.png'' ''bytes of b'',
      entry ''OEBPS/images/c.jpg'' ''bytes of c'']"

subsection \<open>A book with a missing image\<close>

text \<open>The spine has ten entries: a first page whose image is not in the archive, then
  nine times a page whose image is.\<close>

definition book2_opf :: string where
  "book2_opf =
     ''<package><manifest>'' @
     ''<item id=\"q0\" href=\"q0.xhtml\"/><item id=\"q1\" href=\"q1.xhtml\"/>'' @
     ''</manifest><spine><itemref idref=\"q0\"/>'' @
     concat (replicate 9 ''<itemref idref=\"q1\"/>'') @
     ''</spine></package>''"

definition book2_package :: Package where
  "book2_package =
     \<lparr> Metadata = no_metadata,
       Items = [\<lparr> ID = ''q0'', Href = ''q0.xhtml'' \<rparr>, \<lparr> ID = ''q1'', Href = ''q1.xhtml'' \<rparr>],
       Itemrefs = \<lparr> IDRef = ''q0'' \<rparr> # replicate 9 \<lparr> IDRef = ''q1'' \<rparr> \<rparr>"

definition page_missing :: string where
  "page_missing = ''<html><body><img src=\"missing.jpg\"/></body></html>''"

definition page_present :: string where
  "page_present = ''<html><body><img src=\"a.jpg\"/></body></html>''"

definition book2 :: "File list" where
  "book2 =
     [entry ''META-INF/container.xml'' container_xml,
      entry ''OEBPS/content.opf'' book2_opf,
      entry ''OEBPS/q0.xhtml'' page_missing,
      entry ''OEBPS/q1.xhtml'' page_present,
      entry ''OEBPS/a.jpg'' ''bytes of a'']"

text \<open>The same book with the image that was missing.\<close>

definition book2_complete :: "File list" where
  "book2_complete = book2 @ [entry ''OEBPS/missing.jpg'' ''bytes of the first page'']"

subsection \<open>A book with metadata\<close>

text \<open>The title of the series, in UTF-8: five characters, kanji but for the third, a
  hiragana.\<close>

definition series_title :: string where
  "series_title =
     [CHR 0xE9, CHR 0x80, CHR 0xB2, CHR 0xE6, CHR 0x92, CHR 0x83, CHR 0xE3, CHR 0x81, CHR 0xAE,
      CHR 0xE5, CHR 0xB7, CHR 0xA8, CHR 0xE4, CHR 0xBA, CHR 0xBA]"

definition book3_opf :: string where
  "book3_opf =
     ''<package><metadata xmlns:dc=\"http://purl.org/dc/elements/1.1/\">'' @
     ''<dc:title>Volume 1</dc:title><dc:creator>Isayama</dc:creator>'' @
     ''<dc:date>2010-03-17</dc:date><dc:series>'' @ series_title @ ''</dc:series>'' @
     ''</metadata><manifest><item id=\"cover\" href=\"cover.xhtml\"/></manifest>'' @
     ''<spine><itemref idref=\"cover\"/></spine></package>''"

definition book3_metadata :: Metadata where
  "book3_metadata =
     \<lparr> Identifier = [], Title = [''Volume 1''], Language = [], Creator = [''Isayama''],
       Publisher = [], Date = [''2010-03-17''], Rights = [], Series = [series_title],
       SeriesID = [], Number = [] \<rparr>"

definition book3_package :: Package where
  "book3_package =
     \<lparr> Metadata = book3_metadata,
       Items = [\<lparr> ID = ''cover'', Href = ''cover.xhtml'' \<rparr>],
       Itemrefs = [\<lparr> IDRef = ''cover'' \<rparr>] \<rparr>"

definition page_cover :: string where
  "page_cover = ''<html><body><img src=\"cover.jpg\"/></body></html>''"

definition book3 :: "File list" where
  "book3 =
     [entry ''META-INF/container.xml'' container_xml,
      entry ''OEBPS/content.opf'' book3_opf,
      entry ''OEBPS/cover.xhtml'' page_cover,
      entry ''OEBPS/cover.jpg'' ''bytes of the cover'']"

subsection \<open>A book whose spine names no item of the manifest\<close>

definition book4_opf :: string where
  "book4_opf =
     ''<package><manifest><item id=\"p1\" href=\"p1.xhtml\"/></manifest>'' @
     ''<spine><itemref idref=\"ghost\"/></spine></package>''"

definition book4_package :: Package where
  "book4_package =
     \<lparr> Metadata = no_metadata,
       Items = [\<lparr> ID = ''p1'', Href = ''p1.xhtml'' \<rparr>],
       Itemrefs = [\<lparr> IDRef = ''ghost'' \<rparr>] \<rparr>"

definition book4 :: "File list" where
  "book4 =
     [entry ''META-INF/container.xml'' container_xml,
      entry ''OEBPS/content.opf'' book4_opf,
      entry ''OEBPS/p1.xhtml'' page_cover]"

subsection \<open>The environment\<close>

text \<open>
  The encoder of the example: the fields of \<^verbatim>\<open>ComicInfo\<close> that are not zero, in the
  order of the structure, each on a line of its own behind two spaces. It is the output of
  \<^verbatim>\<open>xml.MarshalIndent\<close> for a structure without pages whose strings hold no character
  that XML escapes.
\<close>

definition xml_element :: "string \<Rightarrow> string \<Rightarrow> string" where
  "xml_element name v =
     (if v = [] then [] else [CHR 0x0A] @ ''  <'' @ name @ ''>'' @ v @ ''</'' @ name @ ''>'')"

definition xml_number :: "string \<Rightarrow> int \<Rightarrow> string" where
  "xml_number name i = (if i = 0 then [] else xml_element name (Itoa i))"

definition xml_fields :: "ComicInfo \<Rightarrow> string" where
  "xml_fields c =
     xml_element ''Title'' (ciTitle c) @ xml_element ''Series'' (ciSeries c) @
     xml_element ''Number'' (ciNumber c) @ xml_number ''Count'' (ciCount c) @
     xml_number ''Volume'' (ciVolume c) @
     xml_element ''AlternateSeries'' (ciAlternateSeries c) @
     xml_element ''AlternateNumber'' (ciAlternateNumber c) @
     xml_number ''AlternateCount'' (ciAlternateCount c) @
     xml_element ''Summary'' (ciSummary c) @ xml_element ''Notes'' (ciNotes c) @
     xml_number ''Year'' (ciYear c) @ xml_number ''Month'' (ciMonth c) @
     xml_number ''Day'' (ciDay c) @ xml_element ''Writer'' (ciWriter c) @
     xml_element ''Penciller'' (ciPenciller c) @ xml_element ''Inker'' (ciInker c) @
     xml_element ''Colorist'' (ciColorist c) @ xml_element ''Letterer'' (ciLetterer c) @
     xml_element ''CoverArtist'' (ciCoverArtist c) @ xml_element ''Editor'' (ciEditor c) @
     xml_element ''Publisher'' (ciPublisher c) @ xml_element ''Imprint'' (ciImprint c) @
     xml_element ''Genre'' (ciGenre c) @ xml_element ''Web'' (ciWeb c) @
     xml_number ''PageCount'' (ciPageCount c) @
     xml_element ''LanguageISO'' (ciLanguageISO c) @ xml_element ''Format'' (ciFormat c) @
     xml_element ''BlackAndWhite'' (ciBlackAndWhite c) @ xml_element ''Manga'' (ciManga c) @
     xml_element ''Characters'' (ciCharacters c) @ xml_element ''Teams'' (ciTeams c) @
     xml_element ''Locations'' (ciLocations c) @
     xml_element ''ScanInformation'' (ciScanInformation c) @
     xml_element ''StoryArc'' (ciStoryArc c) @ xml_element ''SeriesGroup'' (ciSeriesGroup c) @
     xml_element ''AgeRating'' (ciAgeRating c) @
     xml_element ''CommunityRating'' (ciCommunityRating c) @
     xml_element ''MainCharacterOrTeam'' (ciMainCharacterOrTeam c) @
     xml_element ''Review'' (ciReview c)"

definition example_marshal :: "ComicInfo \<Rightarrow> string option" where
  "example_marshal c =
     Some (''<ComicInfo>'' @ xml_fields c @
           (if xml_fields c = [] then [] else [CHR 0x0A]) @ ''</ComicInfo>'')"

definition linux_host :: Host where
  "linux_host =
     \<lparr> GOOS = Linux, WindowsJoin = (\<lambda>elem. []), WindowsDir = (\<lambda>path. []),
       WindowsVolume = (\<lambda>path. 0) \<rparr>"

definition example_env :: Env where
  "example_env =
     \<lparr> Host = linux_host,
       DecodeContainer =
         (\<lambda>s. if s = (container_xml, True) then Some \<lparr> FullPath = ''OEBPS/content.opf'' \<rparr>
              else None),
       DecodePackage =
         (\<lambda>s. if s = (book1_opf, True) then Some book1_package
              else if s = (book2_opf, True) then Some book2_package
              else if s = (book3_opf, True) then Some book3_package
              else if s = (book4_opf, True) then Some book4_package
              else None),
       HtmlParse =
         (\<lambda>s. if s = page_two_images then Some (document [img ''../images/a.jpg'', img ''../images/b.png''])
              else if s = page_text_only
                then Some (document [element ''p'' [] [Node TextNode ''The end'' [] [] []]])
              else if s = page_one_image then Some (document [img ''../images/c.jpg''])
              else if s = page_missing then Some (document [img ''missing.jpg''])
              else if s = page_present then Some (document [img ''a.jpg''])
              else if s = page_cover then Some (document [img ''cover.jpg''])
              else None),
       MarshalIndent = example_marshal,
       OsCreate = (\<lambda>path. True),
       ZipCreate = (\<lambda>name. True),
       ZipWrite = (\<lambda>name. None) \<rparr>"

definition example_fs :: filesystem where
  "example_fs =
     (\<lambda>path. if path = ''book1.epub'' then Some book1
            else if path = ''book2.epub'' then Some book2
            else if path = ''book2c.epub'' then Some book2_complete
            else if path = ''book3.epub'' then Some book3
            else if path = ''book4.epub'' then Some book4
            else None)"

subsection \<open>A package document on a share, on Windows\<close>

text \<open>
  A container can name any path for its package document. On Windows a path that starts
  with two separators, a server and a share starts with the name of a volume, here
  \<^verbatim>\<open>//srv/share\<close>: \<^verbatim>\<open>filepath.Dir\<close> keeps the volume, written with backslashes,
  and the root behind it, and \<^verbatim>\<open>filepath.Join\<close> of that directory and a relative href
  cleans the path behind the volume. The host of the example gives the two functions on
  these arguments only, with what the library returns for them.
\<close>

definition share_opf :: string where
  "share_opf = ''//srv/share/content.opf''"

definition share_dir :: string where
  "share_dir = [backslash, backslash] @ ''srv'' @ [backslash] @ ''share'' @ [backslash]"

definition share_page :: string where
  "share_page =
     [backslash, backslash] @ ''srv'' @ [backslash] @ ''share'' @ [backslash] @ ''text'' @
     [backslash] @ ''p1.xhtml''"

definition windows_host :: Host where
  "windows_host =
     \<lparr> GOOS = Windows,
       WindowsJoin = (\<lambda>elem. if elem = [share_dir, ''text/p1.xhtml''] then share_page else []),
       WindowsDir = (\<lambda>path. if path = share_opf then share_dir else ''.''),
       WindowsVolume = (\<lambda>path. 0) \<rparr>"

section \<open>Properties of the path functions\<close>

text \<open>
  A cleaned path holds between its separators only elements that are not empty, so that
  it starts with one separator at most; without that one it starts with none.
\<close>

lemma HasPrefix_slash: "HasPrefix s ''/'' \<longleftrightarrow> (s \<noteq> [] \<and> hd s = CHR ''/'')"
  by (cases s) (simp_all add: HasPrefix_def)

lemma elements_no_slash:
  "e \<in> set (elements p cur) \<Longrightarrow> CHR ''/'' \<notin> set cur \<Longrightarrow> CHR ''/'' \<notin> set e"
  by (induction p cur rule: elements.induct) (auto split: if_splits)

lemma clean_loop_real:
  "list_all (\<lambda>e. CHR ''/'' \<notin> set e) es \<Longrightarrow> list_all real_element out \<Longrightarrow>
   list_all real_element (clean_loop rooted es out)"
  by (induction rooted es out rule: clean_loop.induct)
     (auto simp: real_element_def split: list.splits)

lemma strings_Join_real:
  "list_all real_element es \<Longrightarrow> \<not> HasPrefix (strings_Join es) ''/''"
  by (induction es rule: strings_Join.induct)
     (auto simp: real_element_def HasPrefix_slash dest: hd_in_set)

lemma Clean_no_leading_slash: "\<not> HasPrefix (TrimPrefix (Clean path) ''/'') ''/''"
proof -
  let ?r = "HasPrefix path ''/''"
  let ?out = "rev (clean_loop ?r (elements path []) [])"
  have "list_all (\<lambda>e. CHR ''/'' \<notin> set e) (elements path [])"
    using elements_no_slash [of _ path "[]"] by (auto simp: list_all_iff)
  then have "list_all real_element (clean_loop ?r (elements path []) [])"
    by (rule clean_loop_real) simp
  then have "list_all real_element ?out" by (simp add: list_all_iff)
  then have j: "\<not> HasPrefix (strings_Join ?out) ''/''" by (rule strings_Join_real)
  show ?thesis
  proof (cases ?r)
    case True
    then have "Clean path = CHR ''/'' # strings_Join ?out" by (simp add: Clean_def Let_def)
    then have "TrimPrefix (Clean path) ''/'' = strings_Join ?out"
      by (simp add: TrimPrefix_def HasPrefix_def)
    with j show ?thesis by simp
  next
    case False
    then have c: "Clean path = (if ?out = [] then ''.'' else strings_Join ?out)"
      by (simp add: Clean_def Let_def)
    from j have "\<not> HasPrefix (Clean path) ''/''"
      unfolding c by (simp add: HasPrefix_def)
    then show ?thesis by (simp add: TrimPrefix_def)
  qed
qed

lemma ToSlash_slash_host: "GOOS h \<noteq> Windows \<Longrightarrow> ToSlash h path = path"
  by (simp add: ToSlash_def Separator_def)

lemma Join_no_leading_slash:
  assumes "GOOS h \<noteq> Windows"
  shows "\<not> HasPrefix (TrimPrefix (ToSlash h (Join h elem)) ''/'') ''/''"
proof (cases "dropWhile (\<lambda>e. e = []) elem")
  case Nil
  show ?thesis
    unfolding ToSlash_slash_host [OF assms] Join_def Nil using assms
    by (simp add: TrimPrefix_def HasPrefix_def)
next
  case (Cons a list)
  show ?thesis
    unfolding ToSlash_slash_host [OF assms] Join_def Cons using assms Clean_no_leading_slash
    by simp
qed

text \<open>On Windows the result of \<^verbatim>\<open>ToSlash\<close> holds no backslash, and neither does what
  \<^verbatim>\<open>TrimPrefix\<close> leaves of it.\<close>

lemma ToSlash_no_backslash: "GOOS h = Windows \<Longrightarrow> backslash \<notin> set (ToSlash h path)"
  by (auto simp: ToSlash_def Separator_def backslash_def)

lemma set_TrimPrefix: "set (TrimPrefix s p) \<subseteq> set s"
  by (auto simp: TrimPrefix_def dest: in_set_dropD)

section \<open>What the loops compute\<close>

lemma map_filter_append: "List.map_filter g (xs @ ys) = List.map_filter g xs @ List.map_filter g ys"
  by (simp add: List.map_filter_def)

lemma attr_loop_find:
  "attr_loop h pageHref as srcs =
     srcs @ (case find (\<lambda>a. AttrKey a = ''src'') as of
               None \<Rightarrow> [] | Some a \<Rightarrow> [resolve h pageHref (AttrVal a)])"
  by (induction as) (simp_all add: resolve_def Let_def)

lemma f_node_preorder:
  "f_node h pageHref n srcs =
     srcs @ map (resolve h pageHref) (List.map_filter src_of (preorder n))"
  "f_children h pageHref cs srcs =
     srcs @ map (resolve h pageHref) (List.map_filter src_of (concat (map preorder cs)))"
proof (induction h pageHref n srcs and h pageHref cs srcs rule: f_node_f_children.induct)
  case (1 h pageHref t d ns attrs cs srcs)
  show ?case
    by (simp add: "1.IH" attr_loop_find src_of_def is_img_def
             split: option.split)
next
  case (2 h pageHref srcs)
  show ?case by simp
next
  case (3 h pageHref c cs srcs)
  have "f_children h pageHref (c # cs) srcs = f_children h pageHref cs (f_node h pageHref c srcs)"
    by simp
  also have "\<dots> = f_node h pageHref c srcs @
      map (resolve h pageHref) (List.map_filter src_of (concat (map preorder cs)))"
    by (rule "3.IH"(2))
  finally show ?case by (simp add: "3.IH"(1) map_filter_append)
qed

lemma extractImagesFromXHTML_refs:
  "extractImagesFromXHTML env content pageHref srcs =
     srcs @ (case HtmlParse env content of
               None \<Rightarrow> [] | Some doc \<Rightarrow> page_refs (Host env) pageHref doc)"
  by (simp add: extractImagesFromXHTML_def f_node_preorder page_refs_def split: option.split)

lemma page_loop_images:
  "page_loop env zipReader pageHref imgSrcs = imgSrcs @ page_images env zipReader pageHref"
  by (induction zipReader)
     (auto simp: page_images_def page_document_def extractImagesFromXHTML_refs
           split: option.splits)

lemma pages_loop_images:
  "pages_loop env zipReader pages imgSrcs =
     imgSrcs @ concat (map (page_images env zipReader) pages)"
  by (induction pages arbitrary: imgSrcs) (simp_all add: page_loop_images)

lemma spine_loop_resolved:
  "spine_loop h volOPFPath pageMap refs pages =
     pages @ map (resolve h volOPFPath) (resolved_hrefs pageMap refs)"
  by (induction refs arbitrary: pages)
     (simp_all add: resolved_hrefs_def resolve_def Let_def split: option.split)

lemma manifest_loop_map_of:
  "manifest_loop items pageMap = pageMap ++ manifest items"
proof (induction items arbitrary: pageMap)
  case Nil
  show ?case by (simp add: manifest_def)
next
  case (Cons item items)
  have h: "manifest (item # items) = [ID item \<mapsto> Href item] ++ manifest items"
    by (simp add: manifest_def map_of_append)
  show ?case
    unfolding manifest_loop.simps Cons.IH h
    by (rule ext) (simp add: map_add_def split: option.split)
qed

lemma addImageToZip_entry:
  "addImageToZip env zipw zipReader imgPath imageIndex total' =
     zipw @ image_entry env zipReader total' imgPath imageIndex"
  by (induction zipReader) (simp_all add: image_entry_def Let_def split: option.split)

lemma images_loop_entries:
  "images_loop env zipReader total' srcs zipw (int n) =
     zipw @ concat (map (\<lambda>(i, src). image_entry env zipReader total' src (int i))
                        (enumerate n srcs))"
proof (induction srcs arbitrary: zipw n)
  case Nil
  show ?case by simp
next
  case (Cons src srcs)
  have e: "int n + 1 = int (Suc n)" by simp
  show ?case
    by (simp only: images_loop.simps e Cons.IH addImageToZip_entry) simp
qed

lemma add_comic_info_entry:
  "add_comic_info env metadata zipw = zipw @ comic_info_entry env metadata"
  by (simp add: add_comic_info_def comic_info_entry_def Let_def split: option.split)

lemma images_loop_image_entries:
  "images_loop env zipReader (int (length srcs)) srcs [] 0 = image_entries env zipReader srcs"
  using images_loop_entries [of env zipReader "int (length srcs)" srcs "[]" 0]
  by (simp add: image_entries_def)

lemma spine_loop_pages:
  "spine_loop h volOPFPath (manifest_loop (Items pkg) Map.empty) (Itemrefs pkg) [] =
     spine_pages h volOPFPath pkg"
  by (simp add: spine_loop_resolved manifest_loop_map_of spine_pages_def)

lemma pages_loop_collected:
  "pages_loop env zipReader (spine_pages (Host env) volOPFPath pkg) [] =
     collected env zipReader volOPFPath pkg"
  by (simp add: pages_loop_images collected_def)

lemma processFile_eq:
  assumes "Ext (Host env) epubPath = ''.epub''"
    and "open_package env fs epubPath = Inr (opened, volOPFPath, pkg)"
    and "zipReader = after_create epubPath (output_path epubPath outputPath) opened"
  shows "processFile env fs epubPath outputPath =
     (if spine_pages (Host env) volOPFPath pkg = [] then (Some NoPagesInSpine, fs)
      else if \<not> OsCreate env (output_path epubPath outputPath) then (Some CreatingZip, fs)
      else (None, fs(output_path epubPath outputPath \<mapsto>
              image_entries env zipReader (collected env zipReader volOPFPath pkg) @
              comic_info_entry env (Metadata pkg))))"
  unfolding processFile_def Let_def assms(1,2) spine_loop_pages pages_loop_collected
    images_loop_image_entries
  by (simp add: output_path_def add_comic_info_entry assms(3))

section \<open>The names of the entries written\<close>

text \<open>The name of a page entry holds no separator of any host and no volume name, so
  that \<^verbatim>\<open>filepath.Base\<close> returns it as it is.\<close>

lemma digit_char_not_separator: "d < 10 \<Longrightarrow> \<not> IsPathSeparator goos (digit_char d)"
proof
  assume d: "d < 10" and e: "IsPathSeparator goos (digit_char d)"
  have v: "(of_char (digit_char d) :: nat) = 48 + d"
    using d by (simp add: digit_char_def)
  from e have "digit_char d = CHR ''/'' \<or> digit_char d = CHR 0x5C"
    by (auto simp: IsPathSeparator_def backslash_def)
  then show False
  proof
    assume "digit_char d = CHR ''/''"
    with v show False by simp
  next
    assume "digit_char d = CHR 0x5C"
    with v d show False by simp
  qed
qed

lemma digits10_no_separator: "c \<in> set (digits10 n) \<Longrightarrow> \<not> IsPathSeparator goos c"
proof (induction n rule: digits10.induct)
  case (1 n)
  show ?case
  proof (cases "n < 10")
    case True
    then show ?thesis
      using "1.prems" digit_char_not_separator [of n goos] by (simp add: digits10.simps [of n])
  next
    case False
    then show ?thesis
      using "1.IH" "1.prems" digit_char_not_separator [of "n mod 10" goos]
      by (auto simp: digits10.simps [of n])
  qed
qed

lemma fmt_0d_no_separator: "c \<in> set (fmt_0d wid i) \<Longrightarrow> \<not> IsPathSeparator goos c"
  by (auto simp: fmt_0d_def Let_def IsPathSeparator_def backslash_def
           dest: digits10_no_separator [of _ _ goos] split: if_splits)

lemma ext_scan_no_separator:
  "c \<in> set (ext_scan goos cs passed) \<Longrightarrow> \<forall>c \<in> set passed. \<not> IsPathSeparator goos c \<Longrightarrow>
   \<not> IsPathSeparator goos c"
  by (induction goos cs passed rule: ext_scan.induct)
     (auto simp: IsPathSeparator_def backslash_def split: if_splits)

lemma Ext_no_separator: "c \<in> set (Ext h path) \<Longrightarrow> \<not> IsPathSeparator (GOOS h) c"
  using ext_scan_no_separator [of c "GOOS h" "rev path" "[]"] by (simp add: Ext_def)

lemma Base_plain:
  assumes "path \<noteq> []" and "\<forall>c \<in> set path. \<not> IsPathSeparator (GOOS h) c"
    and "volumeNameLen h path = 0"
  shows "Base h path = path"
proof -
  have a: "dropWhile (IsPathSeparator (GOOS h)) (rev path) = rev path"
    using assms(1,2) by (cases "rev path") auto
  have b: "takeWhile (\<lambda>c. \<not> IsPathSeparator (GOOS h) c) (rev path) = rev path"
    using assms(2) by (auto simp: takeWhile_eq_all_conv)
  show ?thesis
    unfolding Base_def Let_def a rev_rev_ident assms(3) drop_0 b using assms(1) by simp
qed

lemma volumeNameLen_page: "volumeNameLen h (''page'' @ rest) = 0"
  by (simp add: volumeNameLen_def IsPathSeparator_def backslash_def)

lemma Base_normalizeImageName:
  "Base h (normalizeImageName h originalName index totalFiles) =
     ''page'' @ fmt_0d (length (Itoa totalFiles)) index @ Ext h originalName"
proof -
  let ?name = "''page'' @ fmt_0d (length (Itoa totalFiles)) index @ Ext h originalName"
  have "\<not> IsPathSeparator (GOOS h) c" if "c \<in> set ?name" for c
  proof -
    from that consider "c \<in> set ''page''" | "c \<in> set (fmt_0d (length (Itoa totalFiles)) index)"
      | "c \<in> set (Ext h originalName)"
      by auto
    then show ?thesis
    proof cases
      case 1
      then show ?thesis by (auto simp: IsPathSeparator_def backslash_def)
    next
      case 2
      then show ?thesis by (rule fmt_0d_no_separator)
    next
      case 3
      then show ?thesis by (rule Ext_no_separator)
    qed
  qed
  then have "\<forall>c \<in> set ?name. \<not> IsPathSeparator (GOOS h) c"
    by blast
  then have "Base h ?name = ?name"
    by (intro Base_plain volumeNameLen_page) simp_all
  then show ?thesis by (simp add: normalizeImageName_def Let_def)
qed

lemma image_entry_is_page: "list_all is_page_entry (image_entry env zipReader total' src i)"
  by (simp add: image_entry_def Let_def Base_normalizeImageName is_page_entry_def HasPrefix_def
           split: option.split)

lemma image_entries_are_pages: "list_all is_page_entry (image_entries env zipReader srcs)"
  by (auto simp: image_entries_def list_all_iff dest!: in_set_enumerate_eq [THEN iffD1]
        intro: image_entry_is_page [unfolded list_all_iff, rule_format])

lemma comic_info_entry_cases:
  "comic_info_entry env metadata =
     (if hasMetadata metadata \<and> MarshalIndent env (createComicInfo metadata) \<noteq> None \<and>
         ZipCreate env ''ComicInfo.xml''
      then [\<lparr> Name = ''ComicInfo.xml'',
              Open = Some (zip_write env ''ComicInfo.xml''
                       (xml_Header @ the (MarshalIndent env (createComicInfo metadata)))) \<rparr>]
      else [])"
  by (auto simp: comic_info_entry_def add_comic_info_def Let_def split: option.split)


section \<open>The result of a conversion\<close>

lemma processFile_None:
  assumes "processFile env fs epubPath outputPath = (None, fs')"
    and "open_package env fs epubPath = Inr (opened, volOPFPath, pkg)"
    and "zipReader = after_create epubPath (output_path epubPath outputPath) opened"
  shows "Ext (Host env) epubPath = ''.epub''"
    and "spine_pages (Host env) volOPFPath pkg \<noteq> []"
    and "OsCreate env (output_path epubPath outputPath)"
    and "fs' = fs(output_path epubPath outputPath \<mapsto>
           image_entries env zipReader (collected env zipReader volOPFPath pkg) @
           comic_info_entry env (Metadata pkg))"
proof -
  show e: "Ext (Host env) epubPath = ''.epub''"
    using assms(1) by (auto simp: processFile_def split: if_splits)
  note p = processFile_eq [OF e assms(2,3)]
  show "spine_pages (Host env) volOPFPath pkg \<noteq> []"
    using assms(1) unfolding p by (auto split: if_splits)
  show "OsCreate env (output_path epubPath outputPath)"
    using assms(1) unfolding p by (auto split: if_splits)
  show "fs' = fs(output_path epubPath outputPath \<mapsto>
           image_entries env zipReader (collected env zipReader volOPFPath pkg) @
           comic_info_entry env (Metadata pkg))"
    using assms(1) unfolding p by (auto split: if_splits)
qed

lemma after_create_other:
  "outputPath \<noteq> epubPath \<Longrightarrow> after_create epubPath outputPath opened = opened"
  by (simp add: after_create_def)

lemma manifest_None: "manifest items k = None \<longleftrightarrow> k \<notin> ID ` set items"
  by (simp add: manifest_def map_of_eq_None_iff image_image)

lemma resolved_hrefs_filter:
  "resolved_hrefs (manifest items) refs =
     map (\<lambda>ref. the (manifest items (IDRef ref)))
         (filter (\<lambda>ref. IDRef ref \<in> ID ` set items) refs)"
  by (simp add: resolved_hrefs_def List.map_filter_def manifest_None comp_def)

lemma image_entries_no_comic_info:
  "filter (\<lambda>f. Name f = ''ComicInfo.xml'') (image_entries env zipReader srcs) = []"
proof -
  have "list_all is_page_entry (image_entries env zipReader srcs)"
    by (rule image_entries_are_pages)
  then show ?thesis
    by (auto simp: filter_empty_conv list_all_iff is_page_entry_def HasPrefix_def)
qed

lemma hasMetadata_fields:
  "hasMetadata metadata \<longleftrightarrow>
     Title metadata \<noteq> [] \<or> Creator metadata \<noteq> [] \<or> Publisher metadata \<noteq> [] \<or>
     Series metadata \<noteq> [] \<or> Date metadata \<noteq> [] \<or> Language metadata \<noteq> [] \<or>
     Identifier metadata \<noteq> [] \<or> Number metadata \<noteq> []"
  by (simp add: hasMetadata_def)




lemma japanese_loop_ex:
  "japanese_loop rs = list_ex (\<lambda>r. Hiragana r \<or> Katakana r \<or> Kanji r) rs"
  by (induction rs) (auto simp: Hiragana_def Katakana_def Kanji_def)

lemma createComicInfo_series: "ciSeries (createComicInfo metadata) = getFirst (Series metadata)"
  by (simp add: createComicInfo_def Let_def zero_ComicInfo_def split: list.split option.split)

lemma createComicInfo_manga:
  "ciManga (createComicInfo metadata) =
     (if getFirst (Series metadata) \<noteq> [] then
        (if containsJapanese (getFirst (Series metadata)) then ''Yes'' else ''No'')
      else ''Unknown'')"
  by (simp add: createComicInfo_def Let_def zero_ComicInfo_def split: list.split option.split)

section \<open>The entries written, in order\<close>













subsection \<open>The paths of pages and images\<close>

text \<open>
  On every host, the page of a spine entry is its href joined to the directory of the
  package document, and the reference of an image is its \<^verbatim>\<open>src\<close> joined to the
  directory of the page it stands in; both pass \<^verbatim>\<open>filepath.ToSlash\<close> and lose one
  leading slash. On Windows no backslash is left in them, whatever \<^verbatim>\<open>filepath.Join\<close>
  and \<^verbatim>\<open>filepath.Dir\<close> return. Where the separator is the slash, a joined path is
  clean, it starts with one slash at most, and the result starts with none.
\<close>

lemma resolved_paths:
  "spine_loop h volOPFPath pageMap refs [] =
     map (\<lambda>href. TrimPrefix (ToSlash h (Join h [Dir h volOPFPath, href])) ''/'')
         (List.map_filter (\<lambda>ref. pageMap (IDRef ref)) refs)"
  "f_node h pageHref doc [] =
     map (\<lambda>src. TrimPrefix (ToSlash h (Join h [Dir h pageHref, src])) ''/'')
         (List.map_filter src_of (preorder doc))"
  "GOOS h = Windows \<Longrightarrow>
     list_all (\<lambda>page. backslash \<notin> set page) (spine_loop h volOPFPath pageMap refs []) \<and>
     list_all (\<lambda>imgPath. backslash \<notin> set imgPath) (f_node h pageHref doc [])"
  "GOOS h \<noteq> Windows \<Longrightarrow>
     list_all (\<lambda>page. \<not> HasPrefix page ''/'') (spine_loop h volOPFPath pageMap refs []) \<and>
     list_all (\<lambda>imgPath. \<not> HasPrefix imgPath ''/'') (f_node h pageHref doc [])"
proof -
  have r: "resolve h base = (\<lambda>rel. TrimPrefix (ToSlash h (Join h [Dir h base, rel])) ''/'')"
    for base
    by (rule ext) (simp add: resolve_def)
  have s: "spine_loop h volOPFPath pageMap refs [] =
          map (resolve h volOPFPath) (List.map_filter (\<lambda>ref. pageMap (IDRef ref)) refs)"
    by (simp add: spine_loop_resolved resolved_hrefs_def)
  have f: "f_node h pageHref doc [] =
          map (resolve h pageHref) (List.map_filter src_of (preorder doc))"
    by (simp add: f_node_preorder)
  show "spine_loop h volOPFPath pageMap refs [] =
     map (\<lambda>href. TrimPrefix (ToSlash h (Join h [Dir h volOPFPath, href])) ''/'')
         (List.map_filter (\<lambda>ref. pageMap (IDRef ref)) refs)"
    using s by (simp only: r)
  show "f_node h pageHref doc [] =
     map (\<lambda>src. TrimPrefix (ToSlash h (Join h [Dir h pageHref, src])) ''/'')
         (List.map_filter src_of (preorder doc))"
    using f by (simp only: r)
  show "list_all (\<lambda>page. backslash \<notin> set page) (spine_loop h volOPFPath pageMap refs []) \<and>
     list_all (\<lambda>imgPath. backslash \<notin> set imgPath) (f_node h pageHref doc [])"
    if w: "GOOS h = Windows"
  proof -
    have "backslash \<notin> set (resolve h base rel)" for base rel
      unfolding resolve_def
      using ToSlash_no_backslash [OF w] set_TrimPrefix by blast
    then show ?thesis
      unfolding s f by (simp add: list_all_iff)
  qed
  show "list_all (\<lambda>page. \<not> HasPrefix page ''/'') (spine_loop h volOPFPath pageMap refs []) \<and>
     list_all (\<lambda>imgPath. \<not> HasPrefix imgPath ''/'') (f_node h pageHref doc [])"
    if u: "GOOS h \<noteq> Windows"
  proof -
    have "\<not> HasPrefix (resolve h base rel) ''/''" for base rel
      unfolding resolve_def by (rule Join_no_leading_slash [OF u])
    then show ?thesis
      unfolding s f by (simp add: list_all_iff)
  qed
qed

text \<open>
  An instance on Linux: the package document \<^verbatim>\<open>OEBPS/content.opf\<close> and the href
  \<^verbatim>\<open>text/p1.xhtml\<close> give the page \<^verbatim>\<open>OEBPS/text/p1.xhtml\<close>, and on that page the
  sources \<^verbatim>\<open>../images/a.jpg\<close> and \<^verbatim>\<open>/cover.jpg\<close> give
  \<^verbatim>\<open>OEBPS/images/a.jpg\<close> and \<^verbatim>\<open>OEBPS/text/cover.jpg\<close>.
\<close>

lemma resolved_paths_linux:
  "spine_loop linux_host ''OEBPS/content.opf'' [''p1'' \<mapsto> ''text/p1.xhtml'']
     [\<lparr> IDRef = ''p1'' \<rparr>] [] = [''OEBPS/text/p1.xhtml''] \<and>
   f_node linux_host ''OEBPS/text/p1.xhtml''
     (document [img ''../images/a.jpg'', img ''/cover.jpg'']) [] =
     [''OEBPS/images/a.jpg'', ''OEBPS/text/cover.jpg'']"
proof -
  have e: "map (\<lambda>href. TrimPrefix (ToSlash linux_host
                (Join linux_host [Dir linux_host ''OEBPS/content.opf'', href])) ''/'')
             (List.map_filter (\<lambda>ref. [''p1'' \<mapsto> ''text/p1.xhtml''] (IDRef ref))
                [\<lparr> IDRef = ''p1'' \<rparr>]) = [''OEBPS/text/p1.xhtml'']"
    by code_simp
  have f: "map (\<lambda>src. TrimPrefix (ToSlash linux_host
                (Join linux_host [Dir linux_host ''OEBPS/text/p1.xhtml'', src])) ''/'')
             (List.map_filter src_of
                (preorder (document [img ''../images/a.jpg'', img ''/cover.jpg'']))) =
           [''OEBPS/images/a.jpg'', ''OEBPS/text/cover.jpg'']"
    by code_simp
  show ?thesis
    unfolding resolved_paths(1,2) e f by simp
qed
section \<open>The claims\<close>

subsection \<open>The images of a page (C1)\<close>

text \<open>
  Claim C1, as the code has it. Every image element of a page that has an attribute
  \<^verbatim>\<open>src\<close> contributes one image reference, in document order (a node before its
  children); the element is matched by its name alone, the reference is the value of its
  first \<^verbatim>\<open>src\<close> attribute, empty or not, resolved against the directory of the page. No
  image element is left out after the first: a page with \<open>k\<close> such elements contributes
  \<open>k\<close> references. A page that the parser refuses contributes none.
\<close>

theorem extract_every_image:
  "extractImagesFromXHTML env htmlContent pageHref srcs =
     srcs @
     (case HtmlParse env htmlContent of
        None \<Rightarrow> []
      | Some doc \<Rightarrow>
          map (\<lambda>src. TrimPrefix (ToSlash (Host env)
                      (Join (Host env) [Dir (Host env) pageHref, src])) ''/'')
              (List.map_filter src_of (preorder doc)))"
proof -
  have "resolve (Host env) pageHref =
          (\<lambda>src. TrimPrefix (ToSlash (Host env)
                   (Join (Host env) [Dir (Host env) pageHref, src])) ''/'')"
    by (rule ext) (simp add: resolve_def)
  then show ?thesis
    by (simp add: extractImagesFromXHTML_refs page_refs_def split: option.split)
qed

text \<open>
  Claim C1 as stated (one reference for a page, the later images ignored) fails on the
  first page of the first book, whose body holds two images: both are collected.
\<close>

theorem extract_two_images_counterexample:
  "extractImagesFromXHTML example_env page_two_images ''OEBPS/text/p1.xhtml'' [] =
     [''OEBPS/images/a.jpg'', ''OEBPS/images/b.png''] \<and>
   length (extractImagesFromXHTML example_env page_two_images ''OEBPS/text/p1.xhtml'' []) = 2"
  by code_simp

subsection \<open>The number of page entries (C2)\<close>



subsection \<open>The order of the page entries (C3)\<close>




subsection \<open>The names of the page entries (C4)\<close>





subsection \<open>Spine ids without an item (C5)\<close>

text \<open>
  Claim C5. The pages are the hrefs of the spine ids that the manifest has, in the order
  of the spine: an id without an item adds no page and stops nothing. The conversion
  fails with the error of the empty spine exactly when no id of the spine has an item; as
  soon as one has, it succeeds if the output file can be created.
\<close>

theorem dangling_spine_ids:
  assumes "Ext (Host env) epubPath = ''.epub''"
    and "open_package env fs epubPath = Inr (zipReader, volOPFPath, pkg)"
  shows "spine_loop (Host env) volOPFPath (manifest_loop (Items pkg) Map.empty) (Itemrefs pkg) [] =
           map (\<lambda>ref. TrimPrefix (ToSlash (Host env) (Join (Host env) [Dir (Host env) volOPFPath,
                         the (manifest_loop (Items pkg) Map.empty (IDRef ref))])) ''/'')
               (filter (\<lambda>ref. IDRef ref \<in> ID ` set (Items pkg)) (Itemrefs pkg)) \<and>
         (processFile env fs epubPath outputPath = (Some NoPagesInSpine, fs) \<longleftrightarrow>
            (\<forall>ref \<in> set (Itemrefs pkg). IDRef ref \<notin> ID ` set (Items pkg))) \<and>
         ((\<exists>ref \<in> set (Itemrefs pkg). IDRef ref \<in> ID ` set (Items pkg)) \<and>
          OsCreate env (output_path epubPath outputPath) \<longrightarrow>
            fst (processFile env fs epubPath outputPath) = None)"
proof -
  have m: "manifest_loop (Items pkg) Map.empty = manifest (Items pkg)"
    by (simp add: manifest_loop_map_of)
  have s: "spine_pages (Host env) volOPFPath pkg =
             map (\<lambda>ref. resolve (Host env) volOPFPath (the (manifest (Items pkg) (IDRef ref))))
                 (filter (\<lambda>ref. IDRef ref \<in> ID ` set (Items pkg)) (Itemrefs pkg))"
    by (simp add: spine_pages_def resolved_hrefs_filter comp_def)
  have n: "spine_pages (Host env) volOPFPath pkg = [] \<longleftrightarrow>
             (\<forall>ref \<in> set (Itemrefs pkg). IDRef ref \<notin> ID ` set (Items pkg))"
    unfolding s by (auto simp: filter_empty_conv)
  have "spine_loop (Host env) volOPFPath (manifest_loop (Items pkg) Map.empty) (Itemrefs pkg) [] =
          spine_pages (Host env) volOPFPath pkg"
    by (rule spine_loop_pages)
  then have 1: "spine_loop (Host env) volOPFPath (manifest_loop (Items pkg) Map.empty) (Itemrefs pkg) [] =
           map (\<lambda>ref. TrimPrefix (ToSlash (Host env) (Join (Host env) [Dir (Host env) volOPFPath,
                         the (manifest_loop (Items pkg) Map.empty (IDRef ref))])) ''/'')
               (filter (\<lambda>ref. IDRef ref \<in> ID ` set (Items pkg)) (Itemrefs pkg))"
    unfolding s m by (simp add: resolve_def)
  note p = processFile_eq [OF assms refl, of outputPath]
  have 2: "processFile env fs epubPath outputPath = (Some NoPagesInSpine, fs) \<longleftrightarrow>
            (\<forall>ref \<in> set (Itemrefs pkg). IDRef ref \<notin> ID ` set (Items pkg))"
    unfolding p n [symmetric] by simp
  have 3: "(\<exists>ref \<in> set (Itemrefs pkg). IDRef ref \<in> ID ` set (Items pkg)) \<and>
          OsCreate env (output_path epubPath outputPath) \<longrightarrow>
            fst (processFile env fs epubPath outputPath) = None"
    unfolding p using n by auto
  from 1 2 3 show ?thesis by blast
qed


text \<open>
  An instance: the spine of the first book names \<^verbatim>\<open>ghost\<close>, which the manifest does
  not have, between its pages, and the book is converted; the spine of the fourth book
  names nothing else, and the conversion fails.
\<close>

theorem dangling_spine_ids_witness:
  "Ext (Host example_env) ''book1.epub'' = ''.epub'' \<and>
   open_package example_env example_fs ''book1.epub'' =
     Inr (book1, ''OEBPS/content.opf'', book1_package) \<and>
   map IDRef (Itemrefs book1_package) = [''p1'', ''ghost'', ''p2'', ''p3''] \<and>
   spine_loop (Host example_env) ''OEBPS/content.opf''
       (manifest_loop (Items book1_package) Map.empty)
       (Itemrefs book1_package) [] =
     [''OEBPS/text/p1.xhtml'', ''OEBPS/text/p2.xhtml'', ''OEBPS/text/p3.xhtml''] \<and>
   fst (processFile example_env example_fs ''book1.epub'' []) = None \<and>
   open_package example_env example_fs ''book4.epub'' =
     Inr (book4, ''OEBPS/content.opf'', book4_package) \<and>
   processFile example_env example_fs ''book4.epub'' [] = (Some NoPagesInSpine, example_fs)"
proof -
  have e1: "Ext (Host example_env) ''book1.epub'' = ''.epub''"
    by code_simp
  have o1: "open_package example_env example_fs ''book1.epub'' =
              Inr (book1, ''OEBPS/content.opf'', book1_package)"
    by code_simp
  have i1: "map IDRef (Itemrefs book1_package) = [''p1'', ''ghost'', ''p2'', ''p3'']"
    by code_simp
  have p1: "map (\<lambda>ref. TrimPrefix (ToSlash (Host example_env) (Join (Host example_env) [Dir (Host example_env) ''OEBPS/content.opf'',
                          the (manifest_loop (Items book1_package) Map.empty (IDRef ref))])) ''/'')
               (filter (\<lambda>ref. IDRef ref \<in> ID ` set (Items book1_package)) (Itemrefs book1_package)) =
            [''OEBPS/text/p1.xhtml'', ''OEBPS/text/p2.xhtml'', ''OEBPS/text/p3.xhtml'']"
    by code_simp
  have r1: "\<exists>ref \<in> set (Itemrefs book1_package). IDRef ref \<in> ID ` set (Items book1_package)"
    by code_simp
  have c1: "OsCreate example_env (output_path ''book1.epub'' [])"
    by code_simp
  have e4: "Ext (Host example_env) ''book4.epub'' = ''.epub''"
    by code_simp
  have o4: "open_package example_env example_fs ''book4.epub'' =
              Inr (book4, ''OEBPS/content.opf'', book4_package)"
    by code_simp
  have r4: "\<forall>ref \<in> set (Itemrefs book4_package). IDRef ref \<notin> ID ` set (Items book4_package)"
    by code_simp
  show ?thesis
    using dangling_spine_ids [OF e1 o1, of "[]"] dangling_spine_ids [OF e4 o4, of "[]"]
      e1 o1 i1 r1 c1 o4 r4
    unfolding p1 by blast
qed

subsection \<open>The entry of the metadata (C6)\<close>

text \<open>
  Claim C6. A field of the metadata is the list of the values of its element in the
  package document, and is not empty when the element occurs. In a conversion that
  succeeds, where the encoder and the creation of the entry do not fail, the output
  archive holds one entry \<^verbatim>\<open>ComicInfo.xml\<close> when one of the eight fields is not empty,
  and none when all are empty.
\<close>

theorem comic_info_presence:
  assumes "processFile env fs epubPath outputPath = (None, fs')"
    and "open_package env fs epubPath = Inr (zipReader, volOPFPath, pkg)"
    and "MarshalIndent env (createComicInfo (Metadata pkg)) \<noteq> None"
    and "ZipCreate env ''ComicInfo.xml''"
  shows "\<exists>out. fs' (output_path epubPath outputPath) = Some out \<and>
           length (filter (\<lambda>f. Name f = ''ComicInfo.xml'') out) =
             (if Title (Metadata pkg) \<noteq> [] \<or> Creator (Metadata pkg) \<noteq> [] \<or>
                 Publisher (Metadata pkg) \<noteq> [] \<or> Series (Metadata pkg) \<noteq> [] \<or>
                 Date (Metadata pkg) \<noteq> [] \<or> Language (Metadata pkg) \<noteq> [] \<or>
                 Identifier (Metadata pkg) \<noteq> [] \<or> Number (Metadata pkg) \<noteq> []
              then 1 else 0)"
proof -
  let ?zr = "after_create epubPath (output_path epubPath outputPath) zipReader"
  let ?out = "image_entries env ?zr (collected env ?zr volOPFPath pkg) @
              comic_info_entry env (Metadata pkg)"
  have "fs' (output_path epubPath outputPath) = Some ?out"
    using processFile_None(4) [OF assms(1,2) refl] by simp
  moreover have "length (filter (\<lambda>f. Name f = ''ComicInfo.xml'') ?out) =
      (if hasMetadata (Metadata pkg) then 1 else 0)"
    using assms(3,4) by (simp add: image_entries_no_comic_info comic_info_entry_cases)
  ultimately show ?thesis
    unfolding hasMetadata_fields by blast
qed

text \<open>
  Two instances: the third book, with a title, a creator, a date and a series, and the
  first book, without metadata.
\<close>

theorem comic_info_presence_witness:
  "processFile example_env example_fs ''book3.epub'' ''out.cbz'' =
     (None, snd (processFile example_env example_fs ''book3.epub'' ''out.cbz'')) \<and>
   map Name (the (snd (processFile example_env example_fs ''book3.epub'' ''out.cbz'') ''out.cbz'')) =
     [''page0.jpg'', ''ComicInfo.xml''] \<and>
   Title (Metadata book3_package) = [''Volume 1''] \<and>
   processFile example_env example_fs ''book1.epub'' ''out.cbz'' =
     (None, snd (processFile example_env example_fs ''book1.epub'' ''out.cbz'')) \<and>
   map Name (the (snd (processFile example_env example_fs ''book1.epub'' ''out.cbz'') ''out.cbz'')) =
     [''page0.jpg'', ''page1.png'', ''page2.jpg''] \<and>
   Metadata book1_package = no_metadata"
proof -
  have p3: "fst (processFile example_env example_fs ''book3.epub'' ''out.cbz'') = None"
    by code_simp
  have s3: "processFile example_env example_fs ''book3.epub'' ''out.cbz'' =
     (None, snd (processFile example_env example_fs ''book3.epub'' ''out.cbz''))"
    using p3 by (simp add: prod_eq_iff)
  have o3: "open_package example_env example_fs ''book3.epub'' =
              Inr (book3, ''OEBPS/content.opf'', book3_package)"
    by code_simp
  have m3: "MarshalIndent example_env (createComicInfo (Metadata book3_package)) \<noteq> None"
    by code_simp
  have z: "ZipCreate example_env ''ComicInfo.xml''"
    by code_simp
  have n3: "map Name (the (snd (processFile example_env example_fs ''book3.epub'' ''out.cbz'') ''out.cbz'')) =
     [''page0.jpg'', ''ComicInfo.xml'']"
    by code_simp
  have t3: "Title (Metadata book3_package) = [''Volume 1'']"
    by code_simp
  have p1: "fst (processFile example_env example_fs ''book1.epub'' ''out.cbz'') = None"
    by code_simp
  have s1: "processFile example_env example_fs ''book1.epub'' ''out.cbz'' =
     (None, snd (processFile example_env example_fs ''book1.epub'' ''out.cbz''))"
    using p1 by (simp add: prod_eq_iff)
  have o1: "open_package example_env example_fs ''book1.epub'' =
              Inr (book1, ''OEBPS/content.opf'', book1_package)"
    by code_simp
  have m1: "MarshalIndent example_env (createComicInfo (Metadata book1_package)) \<noteq> None"
    by code_simp
  have n1: "map Name (the (snd (processFile example_env example_fs ''book1.epub'' ''out.cbz'') ''out.cbz'')) =
     [''page0.jpg'', ''page1.png'', ''page2.jpg'']"
    by code_simp
  have t1: "Metadata book1_package = no_metadata"
    by code_simp
  show ?thesis
    using comic_info_presence [OF s3 o3 m3 z] comic_info_presence [OF s1 o1 m1 z]
      s3 n3 t3 s1 n1 t1
    by blast
qed


subsection \<open>The resolution of paths (C7)\<close>

text \<open>
  Claim C7 has every page path and every image path without a leading slash. The code
  removes one leading slash with \<^verbatim>\<open>strings.TrimPrefix\<close>, and on Windows a joined path
  can start with two separators. Take the program built for Windows and a container
  whose package document is \<^verbatim>\<open>//srv/share/content.opf\<close>. The volume of that path is
  the share \<^verbatim>\<open>//srv/share\<close>, \<^verbatim>\<open>filepath.Dir\<close> returns the root of the share written
  with backslashes, and \<^verbatim>\<open>filepath.Join\<close> of that directory and the href
  \<^verbatim>\<open>text/p1.xhtml\<close> is the path of the page on the share, which starts with two
  backslashes. \<^verbatim>\<open>ToSlash\<close> makes slashes of all its separators, and one of the two
  leading slashes is removed: the page is \<^verbatim>\<open>/srv/share/text/p1.xhtml\<close>, with forward
  slashes and with a leading slash.
\<close>

theorem windows_share_leading_slash:
  "GOOS windows_host = Windows \<and>
   Dir windows_host ''//srv/share/content.opf'' = share_dir \<and>
   Join windows_host [share_dir, ''text/p1.xhtml''] = share_page \<and>
   ToSlash windows_host share_page = ''//srv/share/text/p1.xhtml'' \<and>
   spine_loop windows_host ''//srv/share/content.opf'' [''p1'' \<mapsto> ''text/p1.xhtml'']
     [\<lparr> IDRef = ''p1'' \<rparr>] [] = [''/srv/share/text/p1.xhtml''] \<and>
   HasPrefix ''/srv/share/text/p1.xhtml'' ''/'' \<and>
   backslash \<notin> set ''/srv/share/text/p1.xhtml''"
  by code_simp
subsection \<open>The flag for manga (C8)\<close>

text \<open>
  Claim C8. The series of the record is the first series of the metadata. When it is not
  empty, the flag is \<^verbatim>\<open>Yes\<close> exactly when one of its characters lies in one of the
  ranges \<^verbatim>\<open>3040-309F\<close>, \<^verbatim>\<open>30A0-30FF\<close> and \<^verbatim>\<open>4E00-9FBF\<close>, and \<^verbatim>\<open>No\<close> otherwise;
  when it is empty, the flag is \<^verbatim>\<open>Unknown\<close>.
\<close>

theorem manga_flag:
  "ciSeries (createComicInfo metadata) = getFirst (Series metadata) \<and>
   ciManga (createComicInfo metadata) =
     (if ciSeries (createComicInfo metadata) = [] then ''Unknown''
      else if list_ex (\<lambda>r. Hiragana r \<or> Katakana r \<or> Kanji r)
                (runes (ciSeries (createComicInfo metadata)))
      then ''Yes''
      else ''No'')"
  by (simp add: createComicInfo_series createComicInfo_manga containsJapanese_def japanese_loop_ex)

text \<open>An instance: the series of the third book, whose first character is a kanji.\<close>

theorem manga_flag_witness:
  "ciSeries (createComicInfo book3_metadata) = series_title \<and>
   ciManga (createComicInfo book3_metadata) = ''Yes'' \<and>
   ciManga (createComicInfo no_metadata) = ''Unknown'' \<and>
   ciManga (createComicInfo (book3_metadata \<lparr> Series := [''Tintin''] \<rparr>)) = ''No''"
proof -
  have a: "getFirst (Series book3_metadata) = series_title"
    by code_simp
  have b: "list_ex (\<lambda>r. Hiragana r \<or> Katakana r \<or> Kanji r) (runes series_title)"
    by code_simp
  have c: "getFirst (Series no_metadata) = []"
    by code_simp
  have d: "getFirst (Series (book3_metadata \<lparr> Series := [''Tintin''] \<rparr>)) = ''Tintin''"
    by code_simp
  have e: "\<not> list_ex (\<lambda>r. Hiragana r \<or> Katakana r \<or> Kanji r) (runes ''Tintin'')"
    by code_simp
  have s: "series_title \<noteq> []"
    by code_simp
  show ?thesis
    using manga_flag [of book3_metadata] manga_flag [of no_metadata]
      manga_flag [of "book3_metadata \<lparr> Series := [''Tintin''] \<rparr>"]
    unfolding a c d using b e s by simp
qed

subsection \<open>A missing image and the numbering (C10)\<close>




end
